theory Spec2Isabelle
  imports Main
begin

section \<open>Audio-Assistant: the session store and the message assembler of app.py\<close>

text \<open>
  The handlers of \<^verbatim>\<open>app.py\<close> work on three pieces of state: the global dictionary
  \<^verbatim>\<open>sessions\<close>, the upload folder on disk, and the outside world they call
  (the clock, the hosted model). The dictionary and the folder are fields of the record
  \<open>world\<close>, which every handler takes and returns; clock readings and the model are
  arguments. An exception is a value \<open>Exn msg\<close>, where \<open>msg\<close> is what
  \<^verbatim>\<open>str(e)\<close> gives.
\<close>

subsection \<open>Python strings and numbers\<close>

text \<open>\<^verbatim>\<open>str(n)\<close> for a non-negative integer: its decimal digits.\<close>

definition digit_char :: "nat \<Rightarrow> char" where
  "digit_char d = ''0123456789'' ! d"

fun digits :: "nat \<Rightarrow> string" where
  "digits n = (if n < 10 then [digit_char n] else digits (n div 10) @ [digit_char (n mod 10)])"

declare digits.simps [simp del]

definition str_int :: "int \<Rightarrow> string" where
  "str_int i = (if i < 0 then CHR ''-'' # digits (nat (- i)) else digits (nat i))"

text \<open>\<^verbatim>\<open>s.zfill(k)\<close> on a digit string: zeros on the left up to width \<open>k\<close>.\<close>

definition zfill :: "nat \<Rightarrow> string \<Rightarrow> string" where
  "zfill k s = replicate (k - length s) CHR ''0'' @ s"

text \<open>
  The format \<^verbatim>\<open>f"{i:03d}"\<close>: width 3, zero padded, and the sign, when there is one,
  counts in the width and stays in front of the zeros.
\<close>

definition format_03d :: "int \<Rightarrow> string" where
  "format_03d i = (if i < 0 then CHR ''-'' # zfill 2 (digits (nat (- i))) else zfill 3 (digits (nat i)))"

text \<open>
  \<^verbatim>\<open>str.lower\<close> on the ASCII letters. The result is only ever tested for one of six
  ASCII suffixes, none of which holds a \<open>k\<close>, and no character outside ASCII lowers to
  text ending in one of their letters, so the other characters are left as they are.
\<close>

definition lower_char :: "char \<Rightarrow> char" where
  "lower_char c = (let n = (of_char c :: nat) in if 65 \<le> n \<and> n \<le> 90 then char_of (n + 32) else c)"

definition lower :: "string \<Rightarrow> string" where
  "lower s = map lower_char s"

definition endswith :: "string \<Rightarrow> string \<Rightarrow> bool" where
  "endswith s suf = (length suf \<le> length s \<and> drop (length s - length suf) s = suf)"

definition startswith :: "string \<Rightarrow> string \<Rightarrow> bool" where
  "startswith s pre = (take (length pre) s = pre)"

text \<open>\<^verbatim>\<open>os.path.join(a, b)\<close> on a POSIX system.\<close>

definition path_join :: "string \<Rightarrow> string \<Rightarrow> string" where
  "path_join a b =
     (if startswith b ''/'' then b
      else if a = [] \<or> endswith a ''/'' then a @ b
      else a @ ''/'' @ b)"

definition UPLOAD_FOLDER :: string where
  "UPLOAD_FOLDER = ''uploads''"

subsection \<open>Base64\<close>

definition b64_alphabet :: string where
  "b64_alphabet = ''ABCDEFGHIJKLMNOPQRSTUVWXYZabcdefghijklmnopqrstuvwxyz0123456789+/''"

definition b64_char :: "nat \<Rightarrow> char" where
  "b64_char i = b64_alphabet ! (i mod 64)"

text \<open>\<^verbatim>\<open>base64.b64encode(data).decode('utf-8')\<close>: three bytes give four characters.\<close>

fun b64encode :: "string \<Rightarrow> string" where
  "b64encode [] = []"
| "b64encode [a] =
     (let n = (of_char a :: nat) * 65536
      in [b64_char (n div 262144), b64_char (n div 4096), CHR ''='', CHR ''=''])"
| "b64encode [a, b] =
     (let n = (of_char a :: nat) * 65536 + of_char b * 256
      in [b64_char (n div 262144), b64_char (n div 4096), b64_char (n div 64), CHR ''=''])"
| "b64encode (a # b # c # rest) =
     (let n = (of_char a :: nat) * 65536 + of_char b * 256 + of_char c
      in [b64_char (n div 262144), b64_char (n div 4096), b64_char (n div 64), b64_char n]
         @ b64encode rest)"

subsection \<open>The data model\<close>

text \<open>
  A session id is the value of \<^verbatim>\<open>data.get('session_id')\<close>: a string, or \<open>None\<close>
  when the request has none. \<open>None\<close> is a dictionary key like any other.
\<close>

type_synonym session_id = "string option"

definition str_session_id :: "session_id \<Rightarrow> string" where
  "str_session_id sid = (case sid of None \<Rightarrow> ''None'' | Some s \<Rightarrow> s)"

record message =
  msg_role :: string
  msg_content :: "string option"
  msg_timestamp :: string

text \<open>A rating is passed through as it came; only \<^verbatim>\<open>str\<close> is ever applied to it.\<close>

datatype rating = RNone | RInt int | RStr string

definition str_rating :: "rating \<Rightarrow> string" where
  "str_rating r = (case r of RNone \<Rightarrow> ''None'' | RInt i \<Rightarrow> str_int i | RStr s \<Rightarrow> s)"

record feedback_entry =
  fb_rating :: rating
  fb_comment :: string
  fb_timestamp :: string

record session_state =
  messages :: "message list"
  files :: "string list"
  ticket_counter :: int
  feedback :: "feedback_entry list"

datatype exn = Exn string

definition str_exn :: "exn \<Rightarrow> string" where
  "str_exn e = (case e of Exn msg \<Rightarrow> msg)"

datatype io_op = Read | Write | Remove

text \<open>
  \<open>blobs\<close> is the content of the disk, path to bytes. \<open>io_error w op p\<close> is the
  message of the error that the operating system answers to \<open>op\<close> on the path \<open>p\<close>,
  if it refuses it (permissions, a directory that is not there, a full disk).
\<close>

record world =
  sessions :: "session_id \<rightharpoonup> session_state"
  blobs :: "string \<rightharpoonup> string"
  io_error :: "io_op \<Rightarrow> string \<Rightarrow> string option"

text \<open>The dictionary literal that five handlers store for an id they do not know.\<close>

definition new_session :: session_state where
  "new_session = \<lparr>messages = [], files = [], ticket_counter = 0, feedback = []\<rparr>"

text \<open>
  \<^verbatim>\<open>if session_id not in sessions: sessions[session_id] = {...}\<close>, the block that
  opens \<^verbatim>\<open>init_session\<close>, \<^verbatim>\<open>upload_file\<close>, \<^verbatim>\<open>chat\<close>,
  \<^verbatim>\<open>create_ticket\<close> and \<^verbatim>\<open>submit_feedback\<close>.
\<close>

definition create_if_absent :: "session_id \<Rightarrow> world \<Rightarrow> world" where
  "create_if_absent sid w =
     (case sessions w sid of
        None \<Rightarrow> w\<lparr>sessions := (sessions w)(sid \<mapsto> new_session)\<rparr>
      | Some _ \<Rightarrow> w)"

definition put_session :: "session_id \<Rightarrow> session_state \<Rightarrow> world \<Rightarrow> world" where
  "put_session sid s w = w\<lparr>sessions := (sessions w)(sid \<mapsto> s)\<rparr>"

text \<open>\<^verbatim>\<open>sessions[session_id]\<close> on an id that is not a key.\<close>

definition KeyError :: "session_id \<Rightarrow> exn" where
  "KeyError sid = Exn (case sid of None \<Rightarrow> ''None'' | Some s \<Rightarrow> [CHR 0x27] @ s @ [CHR 0x27])"

text \<open>\<^verbatim>\<open>jsonify(body)\<close> returned from a handler: the body with status 200.\<close>

type_synonym 'a response = "nat \<times> 'a"

definition jsonify :: "'a \<Rightarrow> 'a response" where
  "jsonify body = (200, body)"

text \<open>
  What a handler hands to Flask: a response, or an exception that left the handler
  (\<open>Inl\<close>), which Flask turns into a status 500 page.
\<close>

type_synonym 'a outcome = "(exn + 'a response) \<times> world"

subsection \<open>init\_session\<close>

record init_reply =
  init_success :: bool
  init_files :: "string list"
  init_ticket_counter :: int

definition init_session :: "session_id \<Rightarrow> world \<Rightarrow> init_reply outcome" where
  "init_session sid w =
     (let w1 = create_if_absent sid w
      in case sessions w1 sid of
           None \<Rightarrow> (Inl (KeyError sid), w1)
         | Some s \<Rightarrow>
             (Inr (jsonify \<lparr>init_success = True, init_files = files s,
                            init_ticket_counter = ticket_counter s\<rparr>), w1))"

subsection \<open>upload\_file\<close>

text \<open>
  One entry of \<^verbatim>\<open>request.files.getlist('files')\<close>. A \<^verbatim>\<open>FileStorage\<close> is
  true when its filename is not empty.
\<close>

record file_storage =
  filename :: string
  stream :: string

text \<open>
  The loop over the uploaded files. Each file comes with \<open>now\<close>, the value of
  \<^verbatim>\<open>int(time.time())\<close> read in its iteration. \<^verbatim>\<open>file.save\<close> writes the
  bytes under the path, over whatever was there, or raises.
\<close>

fun save_files :: "session_id \<Rightarrow> (int \<times> file_storage) list \<Rightarrow> string list \<Rightarrow> world
    \<Rightarrow> (exn + string list) \<times> world" where
  "save_files sid [] uploaded_files w = (Inr uploaded_files, w)"
| "save_files sid ((now, file) # rest) uploaded_files w =
     (if filename file \<noteq> [] then
        (let name = str_int now @ ''_'' @ filename file;
             filepath = path_join UPLOAD_FOLDER name
         in case io_error w Write filepath of
              Some msg \<Rightarrow> (Inl (Exn msg), w)
            | None \<Rightarrow>
                (let w1 = w\<lparr>blobs := (blobs w)(filepath \<mapsto> stream file)\<rparr>
                 in case sessions w1 sid of
                      None \<Rightarrow> (Inl (KeyError sid), w1)
                    | Some s \<Rightarrow>
                        save_files sid rest (uploaded_files @ [name])
                          (put_session sid (s\<lparr>files := files s @ [name]\<rparr>) w1)))
      else save_files sid rest uploaded_files w)"

record upload_reply =
  up_success :: bool
  up_files :: "string list"

definition upload_file :: "session_id \<Rightarrow> (int \<times> file_storage) list \<Rightarrow> world
    \<Rightarrow> upload_reply outcome" where
  "upload_file sid fs w =
     (case save_files sid fs [] (create_if_absent sid w) of
        (Inl e, w1) \<Rightarrow> (Inl e, w1)
      | (Inr uploaded_files, w1) \<Rightarrow>
          (Inr (jsonify \<lparr>up_success = True, up_files = uploaded_files\<rparr>), w1))"

subsection \<open>chat\<close>

text \<open>
  A part of the user turn sent to the model: \<^verbatim>\<open>{"text": ...}\<close> or
  \<^verbatim>\<open>{"inline_data": {"mime_type": ..., "data": ...}}\<close>.
\<close>

datatype content_part = Text string | Inline_data string string

definition is_audio :: "string \<Rightarrow> bool" where
  "is_audio name =
     (let l = lower name
      in endswith l ''.wav'' \<or> endswith l ''.mp3'' \<or> endswith l ''.aiff''
         \<or> endswith l ''.aac'' \<or> endswith l ''.ogg'' \<or> endswith l ''.flac'')"

text \<open>
  The \<^verbatim>\<open>if\<close>/\<^verbatim>\<open>elif\<close> chain that sets \<^verbatim>\<open>mime_type\<close>. It has no
  \<^verbatim>\<open>else\<close>: \<open>None\<close> is the variable left unset.
\<close>

definition mime_type :: "string \<Rightarrow> string option" where
  "mime_type name =
     (let l = lower name
      in if endswith l ''.wav'' then Some ''audio/wav''
         else if endswith l ''.mp3'' then Some ''audio/mp3''
         else if endswith l ''.aiff'' then Some ''audio/aiff''
         else if endswith l ''.aac'' then Some ''audio/aac''
         else if endswith l ''.ogg'' then Some ''audio/ogg''
         else if endswith l ''.flac'' then Some ''audio/flac''
         else None)"

text \<open>\<^verbatim>\<open>open(filepath, 'rb').read()\<close>.\<close>

definition read_file :: "world \<Rightarrow> string \<Rightarrow> exn + string" where
  "read_file w filepath =
     (case io_error w Read filepath of
        Some msg \<Rightarrow> Inl (Exn msg)
      | None \<Rightarrow>
          (case blobs w filepath of
             None \<Rightarrow> Inl (Exn ''No such file or directory'')
           | Some data \<Rightarrow> Inr data))"

text \<open>
  The loop over the session's files. \<^verbatim>\<open>user_parts.insert(0, part)\<close> puts the part
  in front of everything collected so far. The branch for an unset \<^verbatim>\<open>mime_type\<close>
  is there for totality only: a name that passed the extension test sets it.
\<close>

fun add_audio :: "world \<Rightarrow> string list \<Rightarrow> content_part list \<Rightarrow> exn + content_part list" where
  "add_audio w [] user_parts = Inr user_parts"
| "add_audio w (name # rest) user_parts =
     (let filepath = path_join UPLOAD_FOLDER name
      in if blobs w filepath \<noteq> None then
           (if is_audio name then
              (case read_file w filepath of
                 Inl e \<Rightarrow> Inl e
               | Inr audio_data \<Rightarrow>
                   (case mime_type name of
                      None \<Rightarrow> Inl (Exn ''mime_type is not associated with a value'')
                    | Some mt \<Rightarrow>
                        add_audio w rest (Inline_data mt (b64encode audio_data) # user_parts)))
            else add_audio w rest user_parts)
         else add_audio w rest user_parts)"

text \<open>The parts of the user turn: the text, if it is true in Python's sense, then the files.\<close>

definition assemble :: "world \<Rightarrow> string option \<Rightarrow> string list \<Rightarrow> exn + content_part list" where
  "assemble w message fs =
     add_audio w fs
       (case message of None \<Rightarrow> [] | Some m \<Rightarrow> if m \<noteq> [] then [Text m] else [])"

text \<open>
  The model: \<open>None\<close> when loading it failed, or the function that
  \<^verbatim>\<open>model.generate_content(...)\<close> followed by \<^verbatim>\<open>response.text\<close> computes on
  the list of role-tagged turns: the text, or the exception raised.
\<close>

type_synonym generative_model = "(string \<times> content_part list) list \<Rightarrow> exn + string"

datatype chat_reply =
  Chat_success string bool
| Chat_error string string

text \<open>
  The body of the \<^verbatim>\<open>try\<close> block. \<open>t_user\<close> and \<open>t_bot\<close> are the two readings
  of \<^verbatim>\<open>datetime.now().isoformat()\<close>.
\<close>

definition chat_try :: "session_id \<Rightarrow> string option \<Rightarrow> bool \<Rightarrow> generative_model option
    \<Rightarrow> string \<Rightarrow> string \<Rightarrow> world \<Rightarrow> (exn + chat_reply) \<times> world" where
  "chat_try sid message is_voice_input model t_user t_bot w =
     (case sessions w sid of
        None \<Rightarrow> (Inl (KeyError sid), w)
      | Some s \<Rightarrow>
          (let w1 = put_session sid
                      (s\<lparr>messages := messages s @
                          [\<lparr>msg_role = ''user'', msg_content = message,
                            msg_timestamp = t_user\<rparr>]\<rparr>) w
           in case model of
                None \<Rightarrow>
                  (Inr (Chat_error ''Model not available''
                          ''I apologize, but the AI model is currently unavailable.''), w1)
              | Some generate_content \<Rightarrow>
                  (case assemble w1 message (files s) of
                     Inl e \<Rightarrow> (Inl e, w1)
                   | Inr user_parts \<Rightarrow>
                       (case generate_content [(''user'', user_parts)] of
                          Inl e \<Rightarrow> (Inl e, w1)
                        | Inr bot_response \<Rightarrow>
                            (case sessions w1 sid of
                               None \<Rightarrow> (Inl (KeyError sid), w1)
                             | Some s1 \<Rightarrow>
                                 (Inr (Chat_success bot_response is_voice_input),
                                  put_session sid
                                    (s1\<lparr>messages := messages s1 @
                                        [\<lparr>msg_role = ''assistant'',
                                          msg_content = Some bot_response,
                                          msg_timestamp = t_bot\<rparr>]\<rparr>) w1))))))"

text \<open>
  The handler from the create block on (lines 110 to 199), once the three fields are read
  and the id is one that can be a dictionary key: the create block, then the
  \<^verbatim>\<open>try\<close> block with its \<^verbatim>\<open>except\<close>.
\<close>

definition chat_session :: "session_id \<Rightarrow> string option \<Rightarrow> bool \<Rightarrow> generative_model option
    \<Rightarrow> string \<Rightarrow> string \<Rightarrow> world \<Rightarrow> chat_reply outcome" where
  "chat_session sid message is_voice_input model t_user t_bot w =
     (case chat_try sid message is_voice_input model t_user t_bot (create_if_absent sid w) of
        (Inr reply, w1) \<Rightarrow> (Inr (jsonify reply), w1)
      | (Inl e, w1) \<Rightarrow>
          (Inr (jsonify (Chat_error (str_exn e)
                  ''An error occurred while processing your request.'')), w1))"

text \<open>
  The value of \<^verbatim>\<open>request.json\<close>. A JSON object is given by what the three calls of
  \<^verbatim>\<open>data.get\<close> find in it: the session id, the message (a string, or \<open>None\<close> when
  absent or null) and the voice flag (false when absent). The session id is a value that
  can be a dictionary key, \<open>None\<close> or a string, or a JSON array or object, which Python
  decodes to a list or a dict and cannot hash. Any other body (an array, a string, a
  number, null) is \<open>Body_other\<close> with the name of its Python type.
\<close>

datatype id_value = Id_key session_id | Id_array | Id_object

datatype chat_body = Body_object id_value "string option" bool | Body_other string

text \<open>
  \<^verbatim>\<open>data.get\<close> on a value that is no dict, and the membership test
  \<^verbatim>\<open>session_id not in sessions\<close> on a list or a dict.
\<close>

definition AttributeError :: "string \<Rightarrow> exn" where
  "AttributeError type_name =
     Exn ([CHR 0x27] @ type_name @ [CHR 0x27] @ '' object has no attribute ''
          @ [CHR 0x27] @ ''get'' @ [CHR 0x27])"

definition TypeError :: "string \<Rightarrow> exn" where
  "TypeError type_name = Exn (''unhashable type: '' @ [CHR 0x27] @ type_name @ [CHR 0x27])"

text \<open>
  The whole handler. The lines before the \<^verbatim>\<open>try\<close> block are not guarded: an
  exception raised there leaves the handler, with the state untouched.
\<close>

definition chat :: "chat_body \<Rightarrow> generative_model option \<Rightarrow> string \<Rightarrow> string \<Rightarrow> world
    \<Rightarrow> chat_reply outcome" where
  "chat data model t_user t_bot w =
     (case data of
        Body_other type_name \<Rightarrow> (Inl (AttributeError type_name), w)
      | Body_object session_id message is_voice_input \<Rightarrow>
          (case session_id of
             Id_array \<Rightarrow> (Inl (TypeError ''list''), w)
           | Id_object \<Rightarrow> (Inl (TypeError ''dict''), w)
           | Id_key sid \<Rightarrow> chat_session sid message is_voice_input model t_user t_bot w))"

subsection \<open>create\_ticket\<close>

text \<open>
  The dictionary \<^verbatim>\<open>ticket_data\<close> that the handler builds is never used again
  and is left out.
\<close>

record ticket_reply =
  tk_success :: bool
  tk_ticket_number :: string
  tk_message :: string

definition create_ticket :: "session_id \<Rightarrow> world \<Rightarrow> ticket_reply outcome" where
  "create_ticket sid w =
     (let w1 = create_if_absent sid w
      in case sessions w1 sid of
           None \<Rightarrow> (Inl (KeyError sid), w1)
         | Some s \<Rightarrow>
             (let s1 = s\<lparr>ticket_counter := ticket_counter s + 1\<rparr>;
                  ticket_number = ''Q'' @ format_03d (ticket_counter s1)
              in (Inr (jsonify \<lparr>tk_success = True, tk_ticket_number = ticket_number,
                         tk_message = ''Quality Inspection Ticket '' @ ticket_number
                                      @ '' created successfully!''\<rparr>),
                  put_session sid s1 w1)))"

subsection \<open>export\_json\<close>

datatype export_reply =
  Snapshot session_id "message list" "string list" int
| Export_error string

definition export_json :: "session_id \<Rightarrow> world \<Rightarrow> export_reply outcome" where
  "export_json sid w =
     (case sessions w sid of
        Some s \<Rightarrow> (Inr (jsonify (Snapshot sid (messages s) (files s) (ticket_counter s))), w)
      | None \<Rightarrow> (Inr (jsonify (Export_error ''Session not found'')), w))"

subsection \<open>clear\_chat\<close>

text \<open>
  The loop that deletes the session's files from the disk. An error of
  \<^verbatim>\<open>os.remove\<close> is printed and the loop goes on.
\<close>

fun remove_files :: "string list \<Rightarrow> world \<Rightarrow> world" where
  "remove_files [] w = w"
| "remove_files (name # rest) w =
     (let filepath = path_join UPLOAD_FOLDER name
      in if blobs w filepath \<noteq> None then
           (case io_error w Remove filepath of
              Some msg \<Rightarrow> remove_files rest w
            | None \<Rightarrow> remove_files rest (w\<lparr>blobs := (blobs w)(filepath := None)\<rparr>))
         else remove_files rest w)"

datatype clear_reply = Clear_success | Clear_error string

definition clear_chat :: "session_id \<Rightarrow> world \<Rightarrow> clear_reply outcome" where
  "clear_chat sid w =
     (case sessions w sid of
        Some s \<Rightarrow>
          (let w1 = remove_files (files s) w
           in case sessions w1 sid of
                None \<Rightarrow> (Inl (KeyError sid), w1)
              | Some s1 \<Rightarrow>
                  (Inr (jsonify Clear_success),
                   put_session sid (s1\<lparr>messages := [], files := []\<rparr>) w1))
      | None \<Rightarrow> (Inr (jsonify (Clear_error ''Session not found'')), w))"

subsection \<open>submit\_feedback\<close>

datatype feedback_reply = Feedback_success

definition submit_feedback :: "session_id \<Rightarrow> rating \<Rightarrow> string \<Rightarrow> string \<Rightarrow> world
    \<Rightarrow> feedback_reply outcome" where
  "submit_feedback sid rating comment now w =
     (let w1 = create_if_absent sid w;
          feedback_entry = \<lparr>fb_rating = rating, fb_comment = comment, fb_timestamp = now\<rparr>
      in case sessions w1 sid of
           None \<Rightarrow> (Inl (KeyError sid), w1)
         | Some s \<Rightarrow>
             (Inr (jsonify Feedback_success),
              put_session sid (s\<lparr>feedback := feedback s @ [feedback_entry]\<rparr>) w1))"

subsection \<open>export\_feedback\<close>

text \<open>One turn of the loop: \<^verbatim>\<open>csv_data += f"{timestamp},{rating},\"{comment}\"\n"\<close>.\<close>

definition csv_line :: "feedback_entry \<Rightarrow> string" where
  "csv_line fb =
     fb_timestamp fb @ '','' @ str_rating (fb_rating fb) @ '','' @ [CHR 0x22] @ fb_comment fb
     @ [CHR 0x22] @ [CHR 0x0A]"

fun csv_loop :: "string \<Rightarrow> feedback_entry list \<Rightarrow> string" where
  "csv_loop csv_data [] = csv_data"
| "csv_loop csv_data (fb # rest) = csv_loop (csv_data @ csv_line fb) rest"

datatype feedback_export_reply =
  Csv_success string string
| Csv_error string

definition export_feedback :: "session_id \<Rightarrow> world \<Rightarrow> feedback_export_reply outcome" where
  "export_feedback sid w =
     (case sessions w sid of
        None \<Rightarrow> (Inr (jsonify (Csv_error ''No feedback data available'')), w)
      | Some s \<Rightarrow>
          if feedback s \<noteq> [] then
            (Inr (jsonify (Csv_success
                    (csv_loop (''Timestamp,Rating,Comment'' @ [CHR 0x0A]) (feedback s))
                    (''feedback_'' @ str_session_id sid @ ''.csv''))), w)
          else (Inr (jsonify (Csv_error ''No feedback data available'')), w))"

subsection \<open>Reading a session, running a handler several times\<close>

text \<open>The fields of the session stored under an id; the default values when there is none.\<close>

definition session_messages :: "world \<Rightarrow> session_id \<Rightarrow> message list" where
  "session_messages w sid = (case sessions w sid of None \<Rightarrow> [] | Some s \<Rightarrow> messages s)"

definition session_files :: "world \<Rightarrow> session_id \<Rightarrow> string list" where
  "session_files w sid = (case sessions w sid of None \<Rightarrow> [] | Some s \<Rightarrow> files s)"

definition session_counter :: "world \<Rightarrow> session_id \<Rightarrow> int" where
  "session_counter w sid = (case sessions w sid of None \<Rightarrow> 0 | Some s \<Rightarrow> ticket_counter s)"

definition session_feedback :: "world \<Rightarrow> session_id \<Rightarrow> feedback_entry list" where
  "session_feedback w sid = (case sessions w sid of None \<Rightarrow> [] | Some s \<Rightarrow> feedback s)"

text \<open>
  \<open>n\<close> calls of \<^verbatim>\<open>create_ticket\<close> one after the other on the same id, each on
  the state the one before left; the ticket numbers of the replies, in order.
\<close>

fun ticket_run :: "nat \<Rightarrow> session_id \<Rightarrow> world \<Rightarrow> (exn + string list) \<times> world" where
  "ticket_run 0 sid w = (Inr [], w)"
| "ticket_run (Suc n) sid w =
     (case create_ticket sid w of
        (Inl e, w1) \<Rightarrow> (Inl e, w1)
      | (Inr (status, reply), w1) \<Rightarrow>
          (case ticket_run n sid w1 of
             (Inl e, w2) \<Rightarrow> (Inl e, w2)
           | (Inr numbers, w2) \<Rightarrow> (Inr (tk_ticket_number reply # numbers), w2)))"

text \<open>The value of a string of decimal digits.\<close>

definition digits_value :: "string \<Rightarrow> nat" where
  "digits_value s = foldl (\<lambda>a c. 10 * a + (of_char c - 48)) 0 s"

text \<open>
  A file of the session qualifies for the model's input when its path is on the disk and
  its name ends in one of the six audio extensions; \<open>audio_part\<close> is the part a
  qualifying file gives.
\<close>

definition qualifies :: "world \<Rightarrow> string \<Rightarrow> bool" where
  "qualifies w name = (blobs w (path_join UPLOAD_FOLDER name) \<noteq> None \<and> is_audio name)"

definition audio_part :: "world \<Rightarrow> string \<Rightarrow> content_part" where
  "audio_part w name =
     Inline_data (case mime_type name of None \<Rightarrow> [] | Some mt \<Rightarrow> mt)
       (b64encode (case blobs w (path_join UPLOAD_FOLDER name) of None \<Rightarrow> [] | Some d \<Rightarrow> d))"

text \<open>
  What an upload request stores. \<open>stored_name\<close> is the name an entry of the request
  is stored under; \<open>named_files\<close> are the entries the loop does not pass over;
  \<open>write_ok\<close> says that the disk accepts the write of an entry; \<open>stored_files\<close>
  are the entries the loop reaches and writes: the named ones up to the first refused write.
\<close>

definition stored_name :: "int \<times> file_storage \<Rightarrow> string" where
  "stored_name entry = str_int (fst entry) @ ''_'' @ filename (snd entry)"

definition named_files :: "(int \<times> file_storage) list \<Rightarrow> (int \<times> file_storage) list" where
  "named_files fs = filter (\<lambda>entry. filename (snd entry) \<noteq> []) fs"

definition write_ok :: "world \<Rightarrow> int \<times> file_storage \<Rightarrow> bool" where
  "write_ok w entry = (io_error w Write (path_join UPLOAD_FOLDER (stored_name entry)) = None)"

definition stored_files :: "world \<Rightarrow> (int \<times> file_storage) list \<Rightarrow> (int \<times> file_storage) list" where
  "stored_files w fs = takeWhile (write_ok w) (named_files fs)"

subsection \<open>Example states\<close>

definition empty_world :: world where
  "empty_world = \<lparr>sessions = Map.empty, blobs = Map.empty, io_error = (\<lambda>op p. None)\<rparr>"

definition demo_feedback :: "feedback_entry list" where
  "demo_feedback =
     [\<lparr>fb_rating = RInt 5, fb_comment = ''good'', fb_timestamp = ''2024-01-01T10:00:00''\<rparr>,
      \<lparr>fb_rating = RInt 2, fb_comment = ''slow, '' @ [CHR 0x22] @ ''very'' @ [CHR 0x22],
        fb_timestamp = ''2024-01-01T10:05:00''\<rparr>]"

definition demo_session :: session_state where
  "demo_session =
     \<lparr>messages = [\<lparr>msg_role = ''user'', msg_content = Some ''hello'',
                    msg_timestamp = ''2024-01-01T09:59:00''\<rparr>],
      files = [''a.wav'', ''b.mp3''], ticket_counter = 4, feedback = demo_feedback\<rparr>"

definition demo_world :: world where
  "demo_world =
     \<lparr>sessions = [Some ''s1'' \<mapsto> demo_session],
      blobs = [''uploads/a.wav'' \<mapsto> ''RIFF'', ''uploads/b.mp3'' \<mapsto> ''ID3''],
      io_error = (\<lambda>op p. None)\<rparr>"

text \<open>The state \<open>demo_world\<close> on a disk that refuses to write one path.\<close>

definition locked_world :: world where
  "locked_world =
     demo_world\<lparr>io_error := (\<lambda>op p. if op = Write \<and> p = ''uploads/6_b.wav''
                                      then Some ''Permission denied'' else None)\<rparr>"

definition failing_model :: generative_model where
  "failing_model turns = Inl (Exn ''quota exceeded'')"

definition answering_model :: generative_model where
  "answering_model turns = Inr ''fine''"

section \<open>Properties\<close>

subsection \<open>What the loops leave alone\<close>

lemma sessions_remove_files: "sessions (remove_files names w) = sessions w"
  by (induction names arbitrary: w) (auto simp: Let_def split: option.splits)

lemma csv_loop_concat: "csv_loop acc fbs = acc @ concat (map csv_line fbs)"
  by (induction fbs arbitrary: acc) auto

subsection \<open>Snapshot export\<close>

text \<open>
  C6. \<^verbatim>\<open>export_json\<close> on an id that is not a key answers the error
  \<open>Session not found\<close> and stores nothing for the id; on an id that is a key it answers
  the id with the session's messages, files and ticket counter. In both cases the state it
  leaves is the state it found.
\<close>

theorem export_json_projection:
  "(sessions w sid = None \<longrightarrow>
      export_json sid w = (Inr (200, Export_error ''Session not found''), w)
      \<and> sessions (snd (export_json sid w)) sid = None)
   \<and> (\<forall>s. sessions w sid = Some s \<longrightarrow>
      export_json sid w = (Inr (200, Snapshot sid (messages s) (files s) (ticket_counter s)), w))"
  by (simp add: export_json_def jsonify_def)

theorem export_json_projection_witness:
  "export_json (Some ''nobody'') demo_world
     = (Inr (200, Export_error ''Session not found''), demo_world)
   \<and> sessions (snd (export_json (Some ''nobody'') demo_world)) (Some ''nobody'') = None
   \<and> export_json (Some ''s1'') demo_world
     = (Inr (200, Snapshot (Some ''s1'') (messages demo_session) [''a.wav'', ''b.mp3''] 4),
        demo_world)"
proof -
  have absent: "sessions demo_world (Some ''nobody'') = None"
    by (simp add: demo_world_def)
  have present: "sessions demo_world (Some ''s1'') = Some demo_session"
    by (simp add: demo_world_def)
  from export_json_projection [of demo_world "Some ''nobody''"] absent
  have "export_json (Some ''nobody'') demo_world
          = (Inr (200, Export_error ''Session not found''), demo_world)
        \<and> sessions (snd (export_json (Some ''nobody'') demo_world)) (Some ''nobody'') = None"
    by blast
  moreover from export_json_projection [of demo_world "Some ''s1''"] present
  have "export_json (Some ''s1'') demo_world
          = (Inr (200, Snapshot (Some ''s1'') (messages demo_session) (files demo_session)
                         (ticket_counter demo_session)), demo_world)"
    by blast
  ultimately show ?thesis
    by (simp add: demo_session_def absent)
qed

subsection \<open>Feedback export\<close>

text \<open>
  C5. \<^verbatim>\<open>export_feedback\<close> answers the error \<open>No feedback data available\<close>
  exactly when the id is not a key or the session's feedback list is empty. Otherwise it
  answers the text made of the line \<open>Timestamp,Rating,Comment\<close> and then, for each
  feedback entry in the order of the list, the line timestamp, comma, rating, comma, and the
  comment between two double quotes, the comment's characters copied as they are.
\<close>

theorem export_feedback_csv:
  "export_feedback sid w =
     (Inr (200,
        if sessions w sid = None \<or> session_feedback w sid = []
        then Csv_error ''No feedback data available''
        else Csv_success
               (''Timestamp,Rating,Comment'' @ [CHR 0x0A] @
                concat (map (\<lambda>fb. fb_timestamp fb @ '','' @ str_rating (fb_rating fb) @ '',''
                                   @ [CHR 0x22] @ fb_comment fb @ [CHR 0x22] @ [CHR 0x0A])
                          (session_feedback w sid)))
               (''feedback_'' @ str_session_id sid @ ''.csv'')), w)"
  by (cases "sessions w sid")
     (simp_all add: export_feedback_def session_feedback_def jsonify_def csv_loop_concat
        csv_line_def [abs_def])

theorem export_feedback_csv_witness:
  "export_feedback (Some ''nobody'') demo_world
     = (Inr (200, Csv_error ''No feedback data available''), demo_world)
   \<and> export_feedback (Some ''s1'') demo_world
     = (Inr (200, Csv_success
          (''Timestamp,Rating,Comment'' @ [CHR 0x0A]
           @ ''2024-01-01T10:00:00,5,'' @ [CHR 0x22] @ ''good'' @ [CHR 0x22, CHR 0x0A]
           @ ''2024-01-01T10:05:00,2,'' @ [CHR 0x22] @ ''slow, '' @ [CHR 0x22] @ ''very''
           @ [CHR 0x22, CHR 0x22, CHR 0x0A])
          ''feedback_s1.csv''), demo_world)"
proof -
  have absent: "sessions demo_world (Some ''nobody'') = None"
    by (simp add: demo_world_def)
  have present: "sessions demo_world (Some ''s1'') \<noteq> None"
    and fbs: "session_feedback demo_world (Some ''s1'') = demo_feedback"
    by (simp_all add: demo_world_def session_feedback_def demo_session_def)
  have five: "str_int 5 = ''5''" and two: "str_int 2 = ''2''"
    by code_simp+
  show ?thesis
    using export_feedback_csv [of "Some ''nobody''" demo_world]
      export_feedback_csv [of "Some ''s1''" demo_world]
    by (simp add: absent present fbs demo_feedback_def str_rating_def str_session_id_def
        five two)
qed

subsection \<open>Clearing a session\<close>

text \<open>
  C3. On an id that is a key, \<^verbatim>\<open>clear_chat\<close> succeeds and leaves the session with
  empty messages and files and with the feedback list and the ticket counter it had; no
  other session changes. A feedback export after the clear answers what it answered
  before the clear.
\<close>

theorem clear_chat_keeps_feedback:
  assumes "sessions w sid = Some s"
  shows "fst (clear_chat sid w) = Inr (200, Clear_success)
    \<and> sessions (snd (clear_chat sid w)) = (sessions w)(sid \<mapsto> s\<lparr>messages := [], files := []\<rparr>)
    \<and> session_messages (snd (clear_chat sid w)) sid = []
    \<and> session_files (snd (clear_chat sid w)) sid = []
    \<and> session_feedback (snd (clear_chat sid w)) sid = feedback s
    \<and> session_counter (snd (clear_chat sid w)) sid = ticket_counter s
    \<and> fst (export_feedback sid (snd (clear_chat sid w))) = fst (export_feedback sid w)"
proof -
  have run: "clear_chat sid w =
      (Inr (200, Clear_success),
       put_session sid (s\<lparr>messages := [], files := []\<rparr>) (remove_files (files s) w))"
    using assms by (simp add: clear_chat_def sessions_remove_files jsonify_def)
  show ?thesis
    using assms
    by (simp add: run put_session_def sessions_remove_files session_messages_def
        session_files_def session_feedback_def session_counter_def export_feedback_def)
qed

theorem clear_chat_keeps_feedback_witness:
  "sessions demo_world (Some ''s1'') = Some demo_session
   \<and> fst (clear_chat (Some ''s1'') demo_world) = Inr (200, Clear_success)
   \<and> session_messages (snd (clear_chat (Some ''s1'') demo_world)) (Some ''s1'') = []
   \<and> session_files (snd (clear_chat (Some ''s1'') demo_world)) (Some ''s1'') = []
   \<and> session_feedback (snd (clear_chat (Some ''s1'') demo_world)) (Some ''s1'') = demo_feedback
   \<and> session_counter (snd (clear_chat (Some ''s1'') demo_world)) (Some ''s1'') = 4
   \<and> fst (export_feedback (Some ''s1'') (snd (clear_chat (Some ''s1'') demo_world)))
      = fst (export_feedback (Some ''s1'') demo_world)"
proof -
  have present: "sessions demo_world (Some ''s1'') = Some demo_session"
    by (simp add: demo_world_def)
  show ?thesis
    using clear_chat_keeps_feedback [OF present] present
    by (simp add: demo_session_def)
qed

subsection \<open>The message assembler\<close>

lemma is_audio_mime_type: "is_audio name \<Longrightarrow> mime_type name \<noteq> None"
  by (auto simp: is_audio_def mime_type_def Let_def)

lemma add_audio_append:
  "add_audio w (xs @ ys) ps =
     (case add_audio w xs ps of Inl e \<Rightarrow> Inl e | Inr ps' \<Rightarrow> add_audio w ys ps')"
  by (induction xs arbitrary: ps) (auto simp: Let_def split: sum.splits option.splits)

lemma add_audio_skip:
  "\<not> qualifies w name \<Longrightarrow> add_audio w (name # rest) ps = add_audio w rest ps"
  by (auto simp: qualifies_def Let_def)

lemma add_audio_same_disk:
  assumes "blobs w1 = blobs w" and "io_error w1 = io_error w"
  shows "add_audio w1 names ps = add_audio w names ps"
proof -
  have "read_file w1 p = read_file w p" for p
    using assms by (simp add: read_file_def split: option.splits)
  then show ?thesis
    using assms
    by (induction names arbitrary: ps) (simp_all add: Let_def split: sum.splits option.splits)
qed

lemma add_audio_result:
  "add_audio w names ps = Inr ps' \<Longrightarrow>
     ps' = rev (map (audio_part w) (filter (qualifies w) names)) @ ps"
proof (induction names arbitrary: ps)
  case Nil
  then show ?case by simp
next
  case (Cons name rest)
  show ?case
  proof (cases "qualifies w name")
    case False
    with Cons show ?thesis by (simp add: add_audio_skip del: add_audio.simps)
  next
    case True
    then have audio: "is_audio name"
      by (simp add: qualifies_def)
    from True obtain data where here: "blobs w (path_join UPLOAD_FOLDER name) = Some data"
      by (auto simp: qualifies_def)
    from is_audio_mime_type [OF audio] obtain mt where mt: "mime_type name = Some mt"
      by auto
    from Cons.prems here audio mt
    have "add_audio w rest (Inline_data mt (b64encode data) # ps) = Inr ps'"
      by (simp add: read_file_def Let_def split: option.splits)
    from Cons.IH [OF this] True here mt show ?thesis
      by (simp add: audio_part_def)
  qed
qed

lemma add_audio_readable:
  "\<forall>name\<in>set names. qualifies w name \<longrightarrow> io_error w Read (path_join UPLOAD_FOLDER name) = None
   \<Longrightarrow> \<exists>ps'. add_audio w names ps = Inr ps'"
proof (induction names arbitrary: ps)
  case Nil
  then show ?case by simp
next
  case (Cons name rest)
  show ?case
  proof (cases "qualifies w name")
    case False
    with Cons show ?thesis by (simp add: add_audio_skip del: add_audio.simps)
  next
    case True
    then have audio: "is_audio name"
      by (simp add: qualifies_def)
    from True obtain data where here: "blobs w (path_join UPLOAD_FOLDER name) = Some data"
      by (auto simp: qualifies_def)
    from is_audio_mime_type [OF audio] obtain mt where mt: "mime_type name = Some mt"
      by auto
    from Cons.prems True have "io_error w Read (path_join UPLOAD_FOLDER name) = None"
      by simp
    with here audio mt Cons show ?thesis
      by (simp add: read_file_def Let_def)
  qed
qed

text \<open>
  C4. With a text that is not empty, whenever the assembler returns a list, the list is
  the audio parts of the qualifying files in the reverse of their order in the session's
  file list, followed by the text part, which is last; and it does return a list when
  every qualifying file can be read.
\<close>

theorem assemble_last_file_first:
  assumes "m \<noteq> []"
  shows "(\<forall>ps. assemble w (Some m) names = Inr ps \<longrightarrow>
            ps = rev (map (audio_part w) (filter (qualifies w) names)) @ [Text m])
    \<and> ((\<forall>name\<in>set names. qualifies w name \<longrightarrow>
            io_error w Read (path_join UPLOAD_FOLDER name) = None) \<longrightarrow>
         assemble w (Some m) names
           = Inr (rev (map (audio_part w) (filter (qualifies w) names)) @ [Text m]))"
proof -
  have shape: "ps = rev (map (audio_part w) (filter (qualifies w) names)) @ [Text m]"
    if "assemble w (Some m) names = Inr ps" for ps
    using that assms add_audio_result [of w names "[Text m]" ps]
    by (simp add: assemble_def)
  have "assemble w (Some m) names
          = Inr (rev (map (audio_part w) (filter (qualifies w) names)) @ [Text m])"
    if "\<forall>name\<in>set names. qualifies w name \<longrightarrow>
          io_error w Read (path_join UPLOAD_FOLDER name) = None"
  proof -
    from add_audio_readable [OF that, of "[Text m]"] assms
    obtain ps where "assemble w (Some m) names = Inr ps"
      by (auto simp: assemble_def)
    with shape show ?thesis by simp
  qed
  with shape show ?thesis by blast
qed

theorem assemble_last_file_first_witness:
  "''hi'' \<noteq> []
   \<and> io_error demo_world Read (path_join UPLOAD_FOLDER ''a.wav'') = None
   \<and> io_error demo_world Read (path_join UPLOAD_FOLDER ''b.mp3'') = None
   \<and> assemble demo_world (Some ''hi'') [''a.wav'', ''b.mp3'']
       = Inr [Inline_data ''audio/mp3'' ''SUQz'', Inline_data ''audio/wav'' ''UklGRg=='',
              Text ''hi'']"
proof -
  have nonempty: "''hi'' \<noteq> []" by simp
  have readable: "\<forall>name\<in>set [''a.wav'', ''b.mp3'']. qualifies demo_world name \<longrightarrow>
      io_error demo_world Read (path_join UPLOAD_FOLDER name) = None"
    by (simp add: demo_world_def)
  have wav: "is_audio ''a.wav''" and mp3: "is_audio ''b.mp3''"
    by code_simp+
  have paths: "path_join UPLOAD_FOLDER ''a.wav'' = ''uploads/a.wav''"
    "path_join UPLOAD_FOLDER ''b.mp3'' = ''uploads/b.mp3''"
    by code_simp+
  have mimes: "mime_type ''a.wav'' = Some ''audio/wav''" "mime_type ''b.mp3'' = Some ''audio/mp3''"
    by code_simp+
  have codes: "b64encode ''RIFF'' = ''UklGRg==''" "b64encode ''ID3'' = ''SUQz''"
    by (simp_all add: b64_char_def b64_alphabet_def)
  have "assemble demo_world (Some ''hi'') [''a.wav'', ''b.mp3'']
      = Inr (rev (map (audio_part demo_world)
                   (filter (qualifies demo_world) [''a.wav'', ''b.mp3''])) @ [Text ''hi''])"
    using assemble_last_file_first [OF nonempty, of demo_world "[''a.wav'', ''b.mp3'']"] readable
    by blast
  also have "\<dots> = Inr [Inline_data ''audio/mp3'' ''SUQz'', Inline_data ''audio/wav'' ''UklGRg=='',
              Text ''hi'']"
    by (simp add: qualifies_def audio_part_def wav mp3 paths mimes codes demo_world_def
        del: b64encode.simps)
  finally show ?thesis
    using nonempty by (simp add: demo_world_def)
qed

text \<open>
  C7. A file of the session whose path is not on the disk, or whose name does not end in
  one of the extensions .wav, .mp3, .aiff, .aac, .ogg, .flac (in any letter case), gives no
  part and no error: the loop leaves the parts as they are at that file, and the assembler
  returns what it returns on the file list without that file, so the files before and after
  it are processed as if it were not there.
\<close>

theorem assemble_skips_file:
  assumes "blobs w (path_join UPLOAD_FOLDER name) = None \<or> \<not> is_audio name"
  shows "add_audio w [name] ps = Inr ps
    \<and> assemble w m (before @ name # after) = assemble w m (before @ after)"
proof -
  from assms have skip: "\<not> qualifies w name"
    by (auto simp: qualifies_def)
  then have one: "add_audio w [name] ps = Inr ps" for ps
    by (simp add: add_audio_skip del: add_audio.simps(2))
  have "add_audio w (before @ name # after) qs = add_audio w (before @ after) qs" for qs
    using skip by (simp add: add_audio_append add_audio_skip del: add_audio.simps(2) split: sum.splits)
  with one show ?thesis
    by (simp add: assemble_def)
qed

theorem assemble_skips_file_witness:
  "is_audio ''doc.pdf'' = False
   \<and> blobs demo_world (path_join UPLOAD_FOLDER ''gone.ogg'') = None
   \<and> add_audio demo_world [''doc.pdf''] [Text ''hi''] = Inr [Text ''hi'']
   \<and> assemble demo_world (Some ''hi'') ([''a.wav''] @ ''doc.pdf'' # [''gone.ogg'', ''b.mp3''])
       = assemble demo_world (Some ''hi'') [''a.wav'', ''b.mp3'']"
proof -
  have pdf: "blobs demo_world (path_join UPLOAD_FOLDER ''doc.pdf'') = None \<or> \<not> is_audio ''doc.pdf''"
    by code_simp
  have ogg_path: "path_join UPLOAD_FOLDER ''gone.ogg'' = ''uploads/gone.ogg''"
    by code_simp
  have ogg: "blobs demo_world (path_join UPLOAD_FOLDER ''gone.ogg'') = None \<or> \<not> is_audio ''gone.ogg''"
    by (simp add: ogg_path demo_world_def)
  from assemble_skips_file [OF pdf, of "[Text ''hi'']" "Some ''hi''" "[''a.wav'']" "[''gone.ogg'', ''b.mp3'']"]
  have first: "add_audio demo_world [''doc.pdf''] [Text ''hi''] = Inr [Text ''hi'']"
    and "assemble demo_world (Some ''hi'') ([''a.wav''] @ ''doc.pdf'' # [''gone.ogg'', ''b.mp3''])
       = assemble demo_world (Some ''hi'') ([''a.wav''] @ [''gone.ogg'', ''b.mp3''])"
    by blast+
  moreover from assemble_skips_file [OF ogg, of "[]" "Some ''hi''" "[''a.wav'']" "[''b.mp3'']"]
  have "assemble demo_world (Some ''hi'') ([''a.wav''] @ ''gone.ogg'' # [''b.mp3''])
       = assemble demo_world (Some ''hi'') ([''a.wav''] @ [''b.mp3''])"
    by blast
  moreover have "is_audio ''doc.pdf'' = False"
    by code_simp
  moreover have "blobs demo_world (path_join UPLOAD_FOLDER ''gone.ogg'') = None"
    by (simp add: ogg_path demo_world_def)
  ultimately show ?thesis
    by simp
qed

subsection \<open>The chat handler\<close>

text \<open>
  What \<^verbatim>\<open>chat\<close> computes, with the session it starts from written out: the stored
  session, or the fresh one for an id that is no key.
\<close>

lemma assemble_same_disk:
  "blobs w1 = blobs w \<Longrightarrow> io_error w1 = io_error w \<Longrightarrow> assemble w1 m names = assemble w m names"
  unfolding assemble_def by (rule add_audio_same_disk)

lemma chat_run:
  "chat (Body_object (Id_key sid) m v) model t_user t_bot w =
     (let s = (case sessions w sid of None \<Rightarrow> new_session | Some s \<Rightarrow> s);
          user = \<lparr>msg_role = ''user'', msg_content = m, msg_timestamp = t_user\<rparr>;
          w1 = put_session sid (s\<lparr>messages := messages s @ [user]\<rparr>) w
      in case model of
           None \<Rightarrow>
             (Inr (200, Chat_error ''Model not available''
                          ''I apologize, but the AI model is currently unavailable.''), w1)
         | Some generate_content \<Rightarrow>
             (case assemble w m (files s) of
                Inl e \<Rightarrow>
                  (Inr (200, Chat_error (str_exn e)
                               ''An error occurred while processing your request.''), w1)
              | Inr user_parts \<Rightarrow>
                  (case generate_content [(''user'', user_parts)] of
                     Inl e \<Rightarrow>
                       (Inr (200, Chat_error (str_exn e)
                                    ''An error occurred while processing your request.''), w1)
                   | Inr bot_response \<Rightarrow>
                       (Inr (200, Chat_success bot_response v),
                        put_session sid
                          (s\<lparr>messages := messages s @
                              [user, \<lparr>msg_role = ''assistant'', msg_content = Some bot_response,
                                      msg_timestamp = t_bot\<rparr>]\<rparr>) w))))"
proof -
  define s where "s = (case sessions w sid of None \<Rightarrow> new_session | Some s \<Rightarrow> s)"
  define user where "user = \<lparr>msg_role = ''user'', msg_content = m, msg_timestamp = t_user\<rparr>"
  define w0 where "w0 = create_if_absent sid w"
  define w1 where "w1 = put_session sid (s\<lparr>messages := messages s @ [user]\<rparr>) w0"
  have stored: "sessions w0 sid = Some s"
    by (simp add: w0_def s_def create_if_absent_def split: option.splits)
  have decoded: "chat (Body_object (Id_key sid) m v) model t_user t_bot w
      = chat_session sid m v model t_user t_bot w"
    by (simp add: chat_def)
  have w1_alt: "w1 = put_session sid (s\<lparr>messages := messages s @ [user]\<rparr>) w"
    by (simp add: w1_def w0_def put_session_def create_if_absent_def split: option.splits)
  have later: "put_session sid s' w1 = put_session sid s' w" for s'
    by (simp add: w1_alt put_session_def)
  have disk: "assemble w1 m names = assemble w m names" for names
    by (rule assemble_same_disk) (simp_all add: w1_alt put_session_def)
  have stored1: "sessions w1 sid = Some (s\<lparr>messages := messages s @ [user]\<rparr>)"
    by (simp add: w1_def put_session_def)
  have "chat (Body_object (Id_key sid) m v) model t_user t_bot w =
      (case model of
         None \<Rightarrow>
           (Inr (200, Chat_error ''Model not available''
                        ''I apologize, but the AI model is currently unavailable.''), w1)
       | Some generate_content \<Rightarrow>
           (case assemble w m (files s) of
              Inl e \<Rightarrow>
                (Inr (200, Chat_error (str_exn e)
                             ''An error occurred while processing your request.''), w1)
            | Inr user_parts \<Rightarrow>
                (case generate_content [(''user'', user_parts)] of
                   Inl e \<Rightarrow>
                     (Inr (200, Chat_error (str_exn e)
                                  ''An error occurred while processing your request.''), w1)
                 | Inr bot_response \<Rightarrow>
                     (Inr (200, Chat_success bot_response v),
                      put_session sid
                        (s\<lparr>messages := messages s @
                            [user, \<lparr>msg_role = ''assistant'', msg_content = Some bot_response,
                                    msg_timestamp = t_bot\<rparr>]\<rparr>) w))))"
    unfolding decoded chat_session_def chat_try_def w0_def [symmetric]
    by (simp add: stored user_def [symmetric] w1_def [symmetric] Let_def disk stored1 later
        jsonify_def split: option.splits sum.splits)
  then show ?thesis
    unfolding Let_def w1_alt s_def user_def .
qed

text \<open>
  C8, as the code has it. On a request whose body is a JSON object and whose session id is
  absent, null or a string, \<^verbatim>\<open>chat\<close> always hands a response with status 200 to
  Flask, never an exception. When reading a file for the assembler or the model call fails
  with an exception \<open>e\<close>, the body is the error \<open>str(e)\<close> with the apology
  \<open>An error occurred while processing your request.\<close>; when there is no model, it is
  the error \<open>Model not available\<close> with the apology for the unavailable model; only
  when nothing fails is it a success.
\<close>

theorem chat_failure_is_reply:
  "fst (chat (Body_object (Id_key sid) m v) model t_user t_bot w) =
     Inr (200,
       case model of
         None \<Rightarrow> Chat_error ''Model not available''
                   ''I apologize, but the AI model is currently unavailable.''
       | Some generate_content \<Rightarrow>
           (case assemble w m (session_files w sid) of
              Inl e \<Rightarrow> Chat_error (str_exn e) ''An error occurred while processing your request.''
            | Inr user_parts \<Rightarrow>
                (case generate_content [(''user'', user_parts)] of
                   Inl e \<Rightarrow>
                     Chat_error (str_exn e) ''An error occurred while processing your request.''
                 | Inr bot_response \<Rightarrow> Chat_success bot_response v)))"
proof -
  have names: "files (case sessions w sid of None \<Rightarrow> new_session | Some s \<Rightarrow> s)
      = session_files w sid"
    by (simp add: session_files_def new_session_def split: option.splits)
  show ?thesis
  proof (cases model)
    case None
    then show ?thesis
      unfolding chat_run Let_def by simp
  next
    case (Some generate_content)
    show ?thesis
    proof (cases "assemble w m (session_files w sid)")
      case (Inl e)
      with Some show ?thesis
        unfolding chat_run Let_def names by simp
    next
      case (Inr user_parts)
      with Some show ?thesis
        unfolding chat_run Let_def names
        by (cases "generate_content [(''user'', user_parts)]") simp_all
    qed
  qed
qed

text \<open>
  A request whose session id is a JSON array, and a request whose body is a JSON array:
  the membership test, or the first \<^verbatim>\<open>data.get\<close>, raises before the
  \<^verbatim>\<open>try\<close> block, the exception leaves the handler and there is no reply with an
  error field; the state is as it was.
\<close>

theorem chat_raises_before_try_counterexample:
  "chat (Body_object Id_array (Some ''hi'') False) (Some answering_model) ''t1'' ''t2''
       empty_world
     = (Inl (TypeError ''list''), empty_world)
   \<and> chat (Body_other ''list'') (Some answering_model) ''t1'' ''t2'' empty_world
     = (Inl (AttributeError ''list''), empty_world)"
  by (simp add: chat_def)

text \<open>
  C10. Whenever \<^verbatim>\<open>chat\<close> answers an error, the session's messages afterwards are
  the messages it had (none for a new id) followed by the user message of this call, with no
  assistant message after it; files, ticket counter and feedback are as before. The user
  message stays although the call failed.
\<close>

theorem chat_error_keeps_user_message:
  assumes "fst (chat (Body_object (Id_key sid) m v) model t_user t_bot w) = Inr (200, Chat_error err apology)"
  shows "session_messages (snd (chat (Body_object (Id_key sid) m v) model t_user t_bot w)) sid
      = session_messages w sid
        @ [\<lparr>msg_role = ''user'', msg_content = m, msg_timestamp = t_user\<rparr>]
    \<and> session_files (snd (chat (Body_object (Id_key sid) m v) model t_user t_bot w)) sid = session_files w sid
    \<and> session_counter (snd (chat (Body_object (Id_key sid) m v) model t_user t_bot w)) sid = session_counter w sid
    \<and> session_feedback (snd (chat (Body_object (Id_key sid) m v) model t_user t_bot w)) sid = session_feedback w sid"
proof -
  define s where "s = (case sessions w sid of None \<Rightarrow> new_session | Some s \<Rightarrow> s)"
  have "snd (chat (Body_object (Id_key sid) m v) model t_user t_bot w)
      = put_session sid
          (s\<lparr>messages := messages s @
              [\<lparr>msg_role = ''user'', msg_content = m, msg_timestamp = t_user\<rparr>]\<rparr>) w"
    using assms unfolding chat_run Let_def s_def [symmetric]
    by (simp split: option.splits sum.splits)
  then show ?thesis
    by (simp add: s_def put_session_def session_messages_def session_files_def
        session_counter_def session_feedback_def new_session_def split: option.splits)
qed

theorem chat_error_keeps_user_message_witness:
  "fst (chat (Body_object (Id_key (Some ''s2'')) (Some ''hi'') False) (Some failing_model) ''t1'' ''t2'' empty_world)
     = Inr (200, Chat_error ''quota exceeded'' ''An error occurred while processing your request.'')
   \<and> session_messages
        (snd (chat (Body_object (Id_key (Some ''s2'')) (Some ''hi'') False) (Some failing_model) ''t1'' ''t2'' empty_world))
        (Some ''s2'')
     = [\<lparr>msg_role = ''user'', msg_content = Some ''hi'', msg_timestamp = ''t1''\<rparr>]"
proof -
  have failed:
    "fst (chat (Body_object (Id_key (Some ''s2'')) (Some ''hi'') False) (Some failing_model) ''t1'' ''t2'' empty_world)
       = Inr (200, Chat_error ''quota exceeded''
                     ''An error occurred while processing your request.'')"
    by (simp add: chat_run Let_def empty_world_def new_session_def assemble_def
        failing_model_def str_exn_def)
  have "session_messages empty_world (Some ''s2'') = []"
    by (simp add: session_messages_def empty_world_def)
  with chat_error_keeps_user_message [OF failed] failed show ?thesis
    by simp
qed

subsection \<open>Ticket numbers\<close>

lemma digits_small: "n < 10 \<Longrightarrow> digits n = [digit_char n]"
  by (subst digits.simps) simp

lemma digits_big: "\<not> n < 10 \<Longrightarrow> digits n = digits (n div 10) @ [digit_char (n mod 10)]"
  by (subst digits.simps) simp

lemma digit_char_value: "d < 10 \<Longrightarrow> of_char (digit_char d) - 48 = (d :: nat)"
proof -
  assume "d < 10"
  then have "d = 0 \<or> d = 1 \<or> d = 2 \<or> d = 3 \<or> d = 4 \<or> d = 5 \<or> d = 6
      \<or> d = 7 \<or> d = 8 \<or> d = 9"
    by arith
  then show ?thesis
    by (elim disjE) (simp_all add: digit_char_def)
qed

lemma digits_value_snoc:
  "digits_value (s @ [c]) = 10 * digits_value s + (of_char c - 48)"
  by (simp add: digits_value_def)

lemma digits_value_digits: "digits_value (digits n) = n"
proof (induction n rule: digits.induct)
  case (1 n)
  show ?case
  proof (cases "n < 10")
    case True
    then show ?thesis
      by (subst digits.simps) (simp add: digits_value_def digit_char_value)
  next
    case False
    with "1" have "digits_value (digits (n div 10)) = n div 10"
      by simp
    with False show ?thesis
      by (subst digits.simps) (simp add: digits_value_snoc digit_char_value)
  qed
qed

lemma digits_value_zeros: "digits_value (replicate k CHR ''0'' @ s) = digits_value s"
proof -
  have "foldl (\<lambda>a c. 10 * a + (of_char c - 48)) (0::nat) (replicate k CHR ''0'') = 0"
    by (induction k) simp_all
  then show ?thesis
    by (simp add: digits_value_def)
qed

lemma digits_value_zfill: "digits_value (zfill k (digits n)) = n"
  by (simp add: zfill_def digits_value_zeros digits_value_digits)

lemma ticket_number_inj: "inj (\<lambda>k. ''Q'' @ zfill 3 (digits k))"
proof (rule injI)
  fix a b :: nat
  assume "''Q'' @ zfill 3 (digits a) = ''Q'' @ zfill 3 (digits b)"
  then have "digits_value (zfill 3 (digits a)) = digits_value (zfill 3 (digits b))"
    by simp
  then show "a = b"
    by (simp add: digits_value_zfill)
qed

lemma create_ticket_step:
  assumes "0 \<le> session_counter w sid"
  shows "\<exists>reply w1. create_ticket sid w = (Inr (200, reply), w1)
    \<and> tk_ticket_number reply = ''Q'' @ zfill 3 (digits (Suc (nat (session_counter w sid))))
    \<and> session_counter w1 sid = session_counter w sid + 1"
proof -
  have "nat (session_counter w sid + 1) = Suc (nat (session_counter w sid))"
    using assms by simp
  with assms show ?thesis
    by (cases "sessions w sid")
       (simp_all add: create_ticket_def create_if_absent_def session_counter_def
          new_session_def put_session_def jsonify_def format_03d_def Let_def)
qed

lemma ticket_run_from:
  "0 \<le> session_counter w sid \<Longrightarrow>
     fst (ticket_run n sid w)
       = Inr (map (\<lambda>k. ''Q'' @ zfill 3 (digits (nat (session_counter w sid) + Suc k))) [0..<n])
     \<and> session_counter (snd (ticket_run n sid w)) sid = session_counter w sid + int n"
proof (induction n arbitrary: w)
  case 0
  then show ?case by simp
next
  case (Suc n)
  from create_ticket_step [OF Suc.prems] obtain reply w1
    where step: "create_ticket sid w = (Inr (200, reply), w1)"
      and number: "tk_ticket_number reply
        = ''Q'' @ zfill 3 (digits (Suc (nat (session_counter w sid))))"
      and counter: "session_counter w1 sid = session_counter w sid + 1"
    by blast
  from counter Suc.prems have nonneg: "0 \<le> session_counter w1 sid"
    and shifted: "nat (session_counter w1 sid) = Suc (nat (session_counter w sid))"
    by simp_all
  from Suc.IH [OF nonneg] obtain w2
    where rest: "ticket_run n sid w1
        = (Inr (map (\<lambda>k. ''Q'' @ zfill 3 (digits (nat (session_counter w1 sid) + Suc k)))
                 [0..<n]), w2)"
      and final: "session_counter w2 sid = session_counter w1 sid + int n"
    by (cases "ticket_run n sid w1") auto
  have "[0..<Suc n] = 0 # map Suc [0..<n]"
    by (simp only: upt_conv_Cons zero_less_Suc map_Suc_upt)
  then have "map (\<lambda>k. ''Q'' @ zfill 3 (digits (nat (session_counter w sid) + Suc k))) [0..<Suc n]
      = (''Q'' @ zfill 3 (digits (Suc (nat (session_counter w sid)))))
        # map (\<lambda>k. ''Q'' @ zfill 3 (digits (nat (session_counter w1 sid) + Suc k))) [0..<n]"
    by (simp only: list.map map_map o_def shifted add_Suc add_Suc_right add_0_right)
  with step number rest final counter show ?case
    by simp
qed

text \<open>
  C2. On a session with no ticket yet (a new id, or a counter at 0), \<open>N\<close> calls of
  \<^verbatim>\<open>create_ticket\<close> one after the other answer the ticket numbers of 1, 2, ..., N in
  this order, each the letter Q followed by the number padded with zeros to three digits;
  these are pairwise different, and the counter is \<open>N\<close> afterwards.
\<close>

theorem ticket_run_sequence:
  assumes "session_counter w sid = 0"
  shows "fst (ticket_run N sid w) = Inr (map (\<lambda>k. ''Q'' @ zfill 3 (digits k)) [1..<Suc N])
    \<and> distinct (map (\<lambda>k. ''Q'' @ zfill 3 (digits k)) [1..<Suc N])
    \<and> session_counter (snd (ticket_run N sid w)) sid = int N"
proof -
  have "map (\<lambda>k. ''Q'' @ zfill 3 (digits (Suc k))) [0..<N]
      = map (\<lambda>k. ''Q'' @ zfill 3 (digits k)) (map Suc [0..<N])"
    by (simp add: o_def)
  also have "map Suc [0..<N] = [1..<Suc N]"
    by (simp only: map_Suc_upt One_nat_def)
  finally have "fst (ticket_run N sid w) = Inr (map (\<lambda>k. ''Q'' @ zfill 3 (digits k)) [1..<Suc N])"
    using ticket_run_from [of w sid N] assms by simp
  moreover have "distinct (map (\<lambda>k. ''Q'' @ zfill 3 (digits k)) [1..<Suc N])"
  proof -
    have "inj_on (\<lambda>k. ''Q'' @ zfill 3 (digits k)) (set [1..<Suc N])"
      by (rule inj_on_subset [OF ticket_number_inj]) simp
    then show ?thesis
      by (simp only: distinct_map distinct_upt simp_thms)
  qed
  moreover have "session_counter (snd (ticket_run N sid w)) sid = int N"
    using ticket_run_from [of w sid N] assms by simp
  ultimately show ?thesis
    by blast
qed

theorem ticket_run_sequence_witness:
  "session_counter empty_world (Some ''s1'') = 0
   \<and> fst (ticket_run 3 (Some ''s1'') empty_world) = Inr [''Q001'', ''Q002'', ''Q003'']
   \<and> distinct [''Q001'', ''Q002'', ''Q003'']
   \<and> session_counter (snd (ticket_run 3 (Some ''s1'') empty_world)) (Some ''s1'') = 3"
proof -
  have fresh: "session_counter empty_world (Some ''s1'') = 0"
    by (simp add: session_counter_def empty_world_def)
  have numbers: "map (\<lambda>k. ''Q'' @ zfill 3 (digits k)) [1..<Suc 3] = [''Q001'', ''Q002'', ''Q003'']"
    by code_simp
  from ticket_run_sequence [OF fresh, of 3] fresh show ?thesis
    by (simp only: numbers) simp
qed

subsection \<open>Uploads\<close>

lemma write_ok_same_disk: "io_error w1 = io_error w \<Longrightarrow> write_ok w1 = write_ok w"
  by (rule ext) (simp add: write_ok_def)

lemma save_files_run:
  assumes "sessions w sid = Some s"
  shows "fst (save_files sid fs uploaded w)
      = (case dropWhile (write_ok w) (named_files fs) of
           [] \<Rightarrow> Inr (uploaded @ map stored_name (named_files fs))
         | entry # _ \<Rightarrow>
             Inl (Exn (case io_error w Write (path_join UPLOAD_FOLDER (stored_name entry)) of
                         None \<Rightarrow> [] | Some msg \<Rightarrow> msg)))
    \<and> sessions (snd (save_files sid fs uploaded w))
      = (sessions w)(sid \<mapsto> s\<lparr>files := files s @ map stored_name (stored_files w fs)\<rparr>)
    \<and> blobs (snd (save_files sid fs uploaded w))
      = foldl (\<lambda>b entry. b(path_join UPLOAD_FOLDER (stored_name entry) \<mapsto> stream (snd entry)))
          (blobs w) (stored_files w fs)"
  using assms
proof (induction fs arbitrary: uploaded w s)
  case Nil
  then have "(sessions w)(sid \<mapsto> s) = sessions w"
    by (simp add: map_upd_triv)
  then show ?case
    by (simp add: named_files_def stored_files_def)
next
  case (Cons entry rest)
  obtain now f where entry: "entry = (now, f)"
    by (cases entry)
  define name where "name = stored_name entry"
  have name_alt: "str_int now @ ''_'' @ filename f = name"
    by (simp add: name_def stored_name_def entry)
  have bytes: "stream (snd entry) = stream f"
    by (simp add: entry)
  show ?case
  proof (cases "filename f = []")
    case True
    then have step: "save_files sid (entry # rest) uploaded w = save_files sid rest uploaded w"
      by (simp add: entry)
    from True have named: "named_files (entry # rest) = named_files rest"
      by (simp add: named_files_def entry)
    then have stored: "stored_files w (entry # rest) = stored_files w rest"
      by (simp add: stored_files_def)
    show ?thesis
      unfolding step named stored by (rule Cons.IH [OF Cons.prems])
  next
    case False
    then have named: "named_files (entry # rest) = entry # named_files rest"
      by (simp add: named_files_def entry)
    show ?thesis
    proof (cases "io_error w Write (path_join UPLOAD_FOLDER name)")
      case (Some msg)
      then have refused: "\<not> write_ok w entry"
        by (simp add: write_ok_def name_def)
      then have dropped: "dropWhile (write_ok w) (entry # named_files rest)
          = entry # named_files rest"
        and stored: "stored_files w (entry # rest) = []"
        by (simp_all add: named stored_files_def)
      from Cons.prems have same_map: "(sessions w)(sid \<mapsto> s) = sessions w"
        by (simp add: map_upd_triv)
      have step: "save_files sid (entry # rest) uploaded w = (Inl (Exn msg), w)"
        using False Some unfolding entry save_files.simps name_alt Let_def by simp
      show ?thesis
        unfolding step named dropped stored
        using Some by (simp add: same_map name_def)
    next
      case None
      then have accepted: "write_ok w entry"
        by (simp add: write_ok_def name_def)
      then have dropped: "dropWhile (write_ok w) (entry # named_files rest)
          = dropWhile (write_ok w) (named_files rest)"
        and stored: "stored_files w (entry # rest) = entry # stored_files w rest"
        by (simp_all add: named stored_files_def)
      define w1 where "w1 = put_session sid (s\<lparr>files := files s @ [name]\<rparr>)
        (w\<lparr>blobs := (blobs w)(path_join UPLOAD_FOLDER name \<mapsto> stream f)\<rparr>)"
      have kept: "sessions w1 sid = Some (s\<lparr>files := files s @ [name]\<rparr>)"
        and same: "io_error w1 = io_error w"
        and disk: "blobs w1 = (blobs w)(path_join UPLOAD_FOLDER name \<mapsto> stream f)"
        and others: "sessions w1 = (sessions w)(sid \<mapsto> s\<lparr>files := files s @ [name]\<rparr>)"
        by (simp_all add: w1_def put_session_def)
      have ok_same: "write_ok w1 = write_ok w"
        by (rule write_ok_same_disk [OF same])
      then have stored_same: "stored_files w1 rest = stored_files w rest"
        by (simp add: stored_files_def)
      have step: "save_files sid (entry # rest) uploaded w
          = save_files sid rest (uploaded @ [name]) w1"
        using False None Cons.prems
        unfolding entry save_files.simps name_alt Let_def w1_def by simp
      note after = Cons.IH [OF kept, of "uploaded @ [name]",
          unfolded ok_same stored_same same others disk]
      from after have reply: "fst (save_files sid rest (uploaded @ [name]) w1)
          = (case dropWhile (write_ok w) (named_files rest) of
               [] \<Rightarrow> Inr ((uploaded @ [name]) @ map stored_name (named_files rest))
             | entry # _ \<Rightarrow>
                 Inl (Exn (case io_error w Write (path_join UPLOAD_FOLDER (stored_name entry)) of
                             None \<Rightarrow> [] | Some msg \<Rightarrow> msg)))"
        and table: "sessions (snd (save_files sid rest (uploaded @ [name]) w1))
          = ((sessions w)(sid \<mapsto> s\<lparr>files := files s @ [name]\<rparr>))
              (sid \<mapsto> s\<lparr>files := files s @ [name],
                        files := files (s\<lparr>files := files s @ [name]\<rparr>)
                                 @ map stored_name (stored_files w rest)\<rparr>)"
        and bytes_after: "blobs (snd (save_files sid rest (uploaded @ [name]) w1))
          = foldl (\<lambda>b entry. b(path_join UPLOAD_FOLDER (stored_name entry) \<mapsto> stream (snd entry)))
              ((blobs w)(path_join UPLOAD_FOLDER name \<mapsto> stream f)) (stored_files w rest)"
        by blast+
      have "fst (save_files sid rest (uploaded @ [name]) w1)
          = (case dropWhile (write_ok w) (named_files rest) of
               [] \<Rightarrow> Inr (uploaded @ map stored_name (entry # named_files rest))
             | entry # _ \<Rightarrow>
                 Inl (Exn (case io_error w Write (path_join UPLOAD_FOLDER (stored_name entry)) of
                             None \<Rightarrow> [] | Some msg \<Rightarrow> msg)))"
        unfolding reply
        by (cases "dropWhile (write_ok w) (named_files rest)")
           (simp_all add: name_def del: dropWhile_eq_Nil_conv)
      moreover have "sessions (snd (save_files sid rest (uploaded @ [name]) w1))
          = (sessions w)(sid \<mapsto> s\<lparr>files := files s
               @ map stored_name (entry # stored_files w rest)\<rparr>)"
        unfolding table by (simp add: name_def)
      moreover have "blobs (snd (save_files sid rest (uploaded @ [name]) w1))
          = foldl (\<lambda>b entry. b(path_join UPLOAD_FOLDER (stored_name entry) \<mapsto> stream (snd entry)))
              (blobs w) (entry # stored_files w rest)"
        unfolding bytes_after by (simp add: name_def bytes)
      ultimately show ?thesis
        unfolding step named dropped stored by blast
    qed
  qed
qed

lemma snoc_not_Nil: "ys @ [y] \<noteq> []"
  by simp

lemma case_last:
  "ys \<noteq> [] \<Longrightarrow> (case ys of [] \<Rightarrow> d | x # xs \<Rightarrow> Some (g (last (x # xs)))) = Some (g (last ys))"
  by (cases ys) simp_all

lemma last_writer:
  "foldl (\<lambda>b entry. b(path_join UPLOAD_FOLDER (stored_name entry) \<mapsto> stream (snd entry)))
       disk entries p
     = (case filter (\<lambda>entry. path_join UPLOAD_FOLDER (stored_name entry) = p) entries of
          [] \<Rightarrow> disk p
        | x # xs \<Rightarrow> Some (stream (snd (last (x # xs)))))"
proof (induction entries rule: rev_induct)
  case Nil
  then show ?case by simp
next
  case (snoc entry entries)
  show ?case
  proof (cases "path_join UPLOAD_FOLDER (stored_name entry) = p")
    case True
    then have "filter (\<lambda>entry. path_join UPLOAD_FOLDER (stored_name entry) = p) (entries @ [entry])
        = filter (\<lambda>entry. path_join UPLOAD_FOLDER (stored_name entry) = p) entries @ [entry]"
      by simp
    then have "(case filter (\<lambda>entry. path_join UPLOAD_FOLDER (stored_name entry) = p)
                   (entries @ [entry]) of
          [] \<Rightarrow> disk p
        | x # xs \<Rightarrow> Some (stream (snd (last (x # xs)))))
        = Some (stream (snd entry))"
      by (simp only: case_last [OF snoc_not_Nil, where g = "\<lambda>e. stream (snd e)"] last_snoc)
    with True show ?thesis
      by simp
  next
    case False
    with snoc show ?thesis
      by simp
  qed
qed

lemma save_files_keeps_session:
  "sessions w sid = Some s \<Longrightarrow>
     \<exists>names. sessions (snd (save_files sid fs uploaded w)) sid
       = Some (s\<lparr>files := files s @ names\<rparr>)"
proof (induction fs arbitrary: uploaded w s)
  case Nil
  then have "sessions (snd (save_files sid [] uploaded w)) sid = Some (s\<lparr>files := files s @ []\<rparr>)"
    by simp
  then show ?case by blast
next
  case (Cons entry rest)
  obtain now f where entry: "entry = (now, f)"
    by (cases entry)
  define name where "name = str_int now @ ''_'' @ filename f"
  define w1 where "w1 = put_session sid (s\<lparr>files := files s @ [name]\<rparr>)
    (w\<lparr>blobs := (blobs w)(path_join UPLOAD_FOLDER name \<mapsto> stream f)\<rparr>)"
  have stored: "sessions w1 sid = Some (s\<lparr>files := files s @ [name]\<rparr>)"
    by (simp add: w1_def put_session_def)
  consider (skip) "save_files sid (entry # rest) uploaded w = save_files sid rest uploaded w"
    | (raise) e where "save_files sid (entry # rest) uploaded w = (Inl e, w)"
    | (save) "save_files sid (entry # rest) uploaded w
        = save_files sid rest (uploaded @ [name]) w1"
    using Cons.prems
    by (cases "filename f = []"; cases "io_error w Write (path_join UPLOAD_FOLDER name)")
       (simp_all add: entry name_def Let_def w1_def)
  then show ?case
  proof cases
    case skip
    with Cons.IH [OF Cons.prems, of uploaded] show ?thesis
      by simp
  next
    case raise
    with Cons.prems have "sessions (snd (save_files sid (entry # rest) uploaded w)) sid
        = Some (s\<lparr>files := files s @ []\<rparr>)"
      by simp
    then show ?thesis by blast
  next
    case save
    from Cons.IH [OF stored, of "uploaded @ [name]"] obtain names
      where "sessions (snd (save_files sid rest (uploaded @ [name]) w1)) sid
          = Some (s\<lparr>files := files s @ [name], files := (files s @ [name]) @ names\<rparr>)"
      by auto
    with save have "sessions (snd (save_files sid (entry # rest) uploaded w)) sid
        = Some (s\<lparr>files := files s @ (name # names)\<rparr>)"
      by simp
    then show ?thesis by blast
  qed
qed

text \<open>
  C9, as the code has it. The loop of \<^verbatim>\<open>upload_file\<close> stores the named files of the
  request one after the other until the disk refuses a write. Each file it stores goes
  under the name made of the seconds read at its turn, an underscore and its original name;
  the session's files afterwards are the ones before followed by these names, in order. On
  the disk, a path holds the bytes of the last file stored under it, so when two files have
  the same original name and the same seconds, the later one replaces the earlier one.
  Nothing looks for this: when no write is refused the answer is the success with the name
  of every named file, the same name twice included; a refused write leaves the handler as
  an exception, with what was stored before it still stored.
\<close>

theorem upload_file_stored_names:
  "stored_name (now, file) = str_int now @ ''_'' @ filename file
   \<and> session_files (snd (upload_file sid fs w)) sid
     = session_files w sid @ map stored_name (stored_files w fs)
   \<and> (\<forall>p. blobs (snd (upload_file sid fs w)) p
         = (case filter (\<lambda>entry. path_join UPLOAD_FOLDER (stored_name entry) = p)
                  (stored_files w fs) of
              [] \<Rightarrow> blobs w p
            | x # xs \<Rightarrow> Some (stream (snd (last (x # xs))))))
   \<and> fst (upload_file sid fs w)
     = (case dropWhile (write_ok w) (named_files fs) of
          [] \<Rightarrow> Inr (200, \<lparr>up_success = True, up_files = map stored_name (named_files fs)\<rparr>)
        | entry # _ \<Rightarrow>
            Inl (Exn (case io_error w Write (path_join UPLOAD_FOLDER (stored_name entry)) of
                        None \<Rightarrow> [] | Some msg \<Rightarrow> msg)))"
proof -
  define s where "s = (case sessions w sid of None \<Rightarrow> new_session | Some s \<Rightarrow> s)"
  define w0 where "w0 = create_if_absent sid w"
  have stored: "sessions w0 sid = Some s" and same: "io_error w0 = io_error w"
    and disk: "blobs w0 = blobs w" and names: "files s = session_files w sid"
    by (simp_all add: w0_def s_def create_if_absent_def session_files_def new_session_def
        split: option.splits)
  have ok_same: "write_ok w0 = write_ok w"
    by (rule write_ok_same_disk [OF same])
  then have stored_same: "stored_files w0 fs = stored_files w fs"
    by (simp add: stored_files_def)
  note run = save_files_run [OF stored, of fs "[]", unfolded ok_same stored_same same disk]
  have result: "fst (upload_file sid fs w)
      = (case fst (save_files sid fs [] w0) of
           Inl e \<Rightarrow> Inl e
         | Inr uploaded_files \<Rightarrow>
             Inr (200, \<lparr>up_success = True, up_files = uploaded_files\<rparr>))"
    by (cases "save_files sid fs [] w0")
       (simp add: upload_file_def w0_def [symmetric] jsonify_def split: sum.splits)
  have state: "snd (upload_file sid fs w) = snd (save_files sid fs [] w0)"
    by (cases "save_files sid fs [] w0")
       (simp add: upload_file_def w0_def [symmetric] jsonify_def split: sum.splits)
  have "session_files (snd (upload_file sid fs w)) sid
      = session_files w sid @ map stored_name (stored_files w fs)"
    using run by (simp add: state session_files_def names)
  moreover have "blobs (snd (upload_file sid fs w)) p
      = (case filter (\<lambda>entry. path_join UPLOAD_FOLDER (stored_name entry) = p)
               (stored_files w fs) of
           [] \<Rightarrow> blobs w p
         | x # xs \<Rightarrow> Some (stream (snd (last (x # xs)))))" for p
    using run by (simp only: state last_writer)
  moreover have "fst (upload_file sid fs w)
      = (case dropWhile (write_ok w) (named_files fs) of
           [] \<Rightarrow> Inr (200, \<lparr>up_success = True, up_files = map stored_name (named_files fs)\<rparr>)
         | entry # _ \<Rightarrow>
             Inl (Exn (case io_error w Write (path_join UPLOAD_FOLDER (stored_name entry)) of
                         None \<Rightarrow> [] | Some msg \<Rightarrow> msg)))"
    using run
    by (cases "dropWhile (write_ok w) (named_files fs)")
       (simp_all add: result del: dropWhile_eq_Nil_conv)
  moreover have "stored_name (now, file) = str_int now @ ''_'' @ filename file"
    by (simp add: stored_name_def)
  ultimately show ?thesis
    by blast
qed

theorem upload_file_stored_names_witness:
  "fst (upload_file (Some ''s1'')
          [(5, \<lparr>filename = ''a.wav'', stream = ''one''\<rparr>),
           (6, \<lparr>filename = ''b.wav'', stream = ''two''\<rparr>),
           (7, \<lparr>filename = ''c.wav'', stream = ''three''\<rparr>)] locked_world)
     = Inl (Exn ''Permission denied'')
   \<and> session_files
        (snd (upload_file (Some ''s1'')
          [(5, \<lparr>filename = ''a.wav'', stream = ''one''\<rparr>),
           (6, \<lparr>filename = ''b.wav'', stream = ''two''\<rparr>),
           (7, \<lparr>filename = ''c.wav'', stream = ''three''\<rparr>)] locked_world)) (Some ''s1'')
     = [''a.wav'', ''b.mp3'', ''5_a.wav'']
   \<and> blobs (snd (upload_file (Some ''s1'')
          [(5, \<lparr>filename = ''a.wav'', stream = ''one''\<rparr>),
           (6, \<lparr>filename = ''b.wav'', stream = ''two''\<rparr>),
           (7, \<lparr>filename = ''c.wav'', stream = ''three''\<rparr>)] locked_world)) ''uploads/5_a.wav''
     = Some ''one''
   \<and> fst (upload_file (Some ''s1'')
          [(8, \<lparr>filename = ''c.ogg'', stream = ''first''\<rparr>),
           (8, \<lparr>filename = [], stream = ''none''\<rparr>),
           (8, \<lparr>filename = ''c.ogg'', stream = ''second''\<rparr>)] demo_world)
     = Inr (200, \<lparr>up_success = True, up_files = [''8_c.ogg'', ''8_c.ogg'']\<rparr>)
   \<and> session_files
        (snd (upload_file (Some ''s1'')
          [(8, \<lparr>filename = ''c.ogg'', stream = ''first''\<rparr>),
           (8, \<lparr>filename = [], stream = ''none''\<rparr>),
           (8, \<lparr>filename = ''c.ogg'', stream = ''second''\<rparr>)] demo_world)) (Some ''s1'')
     = [''a.wav'', ''b.mp3'', ''8_c.ogg'', ''8_c.ogg'']
   \<and> blobs (snd (upload_file (Some ''s1'')
          [(8, \<lparr>filename = ''c.ogg'', stream = ''first''\<rparr>),
           (8, \<lparr>filename = [], stream = ''none''\<rparr>),
           (8, \<lparr>filename = ''c.ogg'', stream = ''second''\<rparr>)] demo_world)) ''uploads/8_c.ogg''
     = Some ''second''"
proof -
  have seconds: "str_int 5 = ''5''" "str_int 6 = ''6''" "str_int 7 = ''7''" "str_int 8 = ''8''"
    by (simp_all add: str_int_def digits_small digit_char_def)
  have paths: "path_join UPLOAD_FOLDER ''5_a.wav'' = ''uploads/5_a.wav''"
    "path_join UPLOAD_FOLDER ''6_b.wav'' = ''uploads/6_b.wav''"
    "path_join UPLOAD_FOLDER ''7_c.wav'' = ''uploads/7_c.wav''"
    "path_join UPLOAD_FOLDER ''8_c.ogg'' = ''uploads/8_c.ogg''"
    by code_simp+
  have before: "session_files locked_world (Some ''s1'') = [''a.wav'', ''b.mp3'']"
    "session_files demo_world (Some ''s1'') = [''a.wav'', ''b.mp3'']"
    by (simp_all add: session_files_def locked_world_def demo_world_def demo_session_def)
  have locked: "io_error locked_world Write p
      = (if p = ''uploads/6_b.wav'' then Some ''Permission denied'' else None)" for p
    by (simp add: locked_world_def)
  have unlocked: "io_error demo_world Write p = None" for p
    by (simp add: demo_world_def)
  have disk: "blobs locked_world = blobs demo_world"
    by (simp add: locked_world_def)
  from upload_file_stored_names
    [of 5 "\<lparr>filename = ''a.wav'', stream = ''one''\<rparr>" "Some ''s1''"
        "[(5, \<lparr>filename = ''a.wav'', stream = ''one''\<rparr>),
          (6, \<lparr>filename = ''b.wav'', stream = ''two''\<rparr>),
          (7, \<lparr>filename = ''c.wav'', stream = ''three''\<rparr>)]" locked_world]
  have refused: "fst (upload_file (Some ''s1'')
          [(5, \<lparr>filename = ''a.wav'', stream = ''one''\<rparr>),
           (6, \<lparr>filename = ''b.wav'', stream = ''two''\<rparr>),
           (7, \<lparr>filename = ''c.wav'', stream = ''three''\<rparr>)] locked_world)
     = Inl (Exn ''Permission denied'')
   \<and> session_files
        (snd (upload_file (Some ''s1'')
          [(5, \<lparr>filename = ''a.wav'', stream = ''one''\<rparr>),
           (6, \<lparr>filename = ''b.wav'', stream = ''two''\<rparr>),
           (7, \<lparr>filename = ''c.wav'', stream = ''three''\<rparr>)] locked_world)) (Some ''s1'')
     = [''a.wav'', ''b.mp3'', ''5_a.wav'']
   \<and> blobs (snd (upload_file (Some ''s1'')
          [(5, \<lparr>filename = ''a.wav'', stream = ''one''\<rparr>),
           (6, \<lparr>filename = ''b.wav'', stream = ''two''\<rparr>),
           (7, \<lparr>filename = ''c.wav'', stream = ''three''\<rparr>)] locked_world)) ''uploads/5_a.wav''
     = Some ''one''"
    by (simp add: stored_files_def named_files_def write_ok_def stored_name_def seconds paths
        before locked)
  from upload_file_stored_names
    [of 8 "\<lparr>filename = ''c.ogg'', stream = ''first''\<rparr>" "Some ''s1''"
        "[(8, \<lparr>filename = ''c.ogg'', stream = ''first''\<rparr>),
          (8, \<lparr>filename = [], stream = ''none''\<rparr>),
          (8, \<lparr>filename = ''c.ogg'', stream = ''second''\<rparr>)]" demo_world]
  have twice: "fst (upload_file (Some ''s1'')
          [(8, \<lparr>filename = ''c.ogg'', stream = ''first''\<rparr>),
           (8, \<lparr>filename = [], stream = ''none''\<rparr>),
           (8, \<lparr>filename = ''c.ogg'', stream = ''second''\<rparr>)] demo_world)
     = Inr (200, \<lparr>up_success = True, up_files = [''8_c.ogg'', ''8_c.ogg'']\<rparr>)
   \<and> session_files
        (snd (upload_file (Some ''s1'')
          [(8, \<lparr>filename = ''c.ogg'', stream = ''first''\<rparr>),
           (8, \<lparr>filename = [], stream = ''none''\<rparr>),
           (8, \<lparr>filename = ''c.ogg'', stream = ''second''\<rparr>)] demo_world)) (Some ''s1'')
     = [''a.wav'', ''b.mp3'', ''8_c.ogg'', ''8_c.ogg'']
   \<and> blobs (snd (upload_file (Some ''s1'')
          [(8, \<lparr>filename = ''c.ogg'', stream = ''first''\<rparr>),
           (8, \<lparr>filename = [], stream = ''none''\<rparr>),
           (8, \<lparr>filename = ''c.ogg'', stream = ''second''\<rparr>)] demo_world)) ''uploads/8_c.ogg''
     = Some ''second''"
    by (simp add: stored_files_def named_files_def write_ok_def stored_name_def seconds paths
        before unlocked)
  from refused twice show ?thesis
    by blast
qed

text \<open>
  Two files named \<open>a.wav\<close> stored in the same second in a new session: the answer is
  the plain success with the one stored name twice, and the disk holds the second file's
  bytes only.
\<close>

theorem upload_collision_counterexample:
  "fst (upload_file (Some ''s9'')
          [(1700000000, \<lparr>filename = ''a.wav'', stream = ''one''\<rparr>),
           (1700000000, \<lparr>filename = ''a.wav'', stream = ''two''\<rparr>)] empty_world)
     = Inr (200, \<lparr>up_success = True, up_files = [''1700000000_a.wav'', ''1700000000_a.wav'']\<rparr>)
   \<and> session_files
        (snd (upload_file (Some ''s9'')
          [(1700000000, \<lparr>filename = ''a.wav'', stream = ''one''\<rparr>),
           (1700000000, \<lparr>filename = ''a.wav'', stream = ''two''\<rparr>)] empty_world)) (Some ''s9'')
     = [''1700000000_a.wav'', ''1700000000_a.wav'']
   \<and> blobs (snd (upload_file (Some ''s9'')
          [(1700000000, \<lparr>filename = ''a.wav'', stream = ''one''\<rparr>),
           (1700000000, \<lparr>filename = ''a.wav'', stream = ''two''\<rparr>)] empty_world))
        ''uploads/1700000000_a.wav''
     = Some ''two''"
proof -
  have seconds: "str_int 1700000000 = ''1700000000''"
    by (simp add: str_int_def digits_small digits_big digit_char_def)
  have path: "path_join UPLOAD_FOLDER ''1700000000_a.wav'' = ''uploads/1700000000_a.wav''"
    by code_simp
  show ?thesis
    by (simp add: upload_file_def create_if_absent_def empty_world_def new_session_def
        put_session_def jsonify_def session_files_def Let_def seconds path)
qed

subsection \<open>The first operation on a new id\<close>

text \<open>
  C1, as the code has it. On an id that is no key, \<^verbatim>\<open>init_session\<close> stores the
  session with no messages, no files, counter 0 and no feedback; \<^verbatim>\<open>upload_file\<close>,
  \<^verbatim>\<open>chat\<close>, \<^verbatim>\<open>create_ticket\<close> and \<^verbatim>\<open>submit_feedback\<close> store
  that session with their own effect on it (the stored names, the user message and what
  follows it, the counter at 1, the one feedback entry). \<^verbatim>\<open>export_json\<close>,
  \<^verbatim>\<open>export_feedback\<close> and \<^verbatim>\<open>clear_chat\<close> answer their error and leave the
  state as it is, the id still no key.
\<close>

theorem first_operation_on_new_id:
  assumes "sessions w sid = None"
  shows "sessions (snd (init_session sid w)) sid
      = Some \<lparr>messages = [], files = [], ticket_counter = 0, feedback = []\<rparr>
    \<and> (\<exists>names. sessions (snd (upload_file sid fs w)) sid
          = Some \<lparr>messages = [], files = names, ticket_counter = 0, feedback = []\<rparr>)
    \<and> (\<exists>replies. sessions (snd (chat (Body_object (Id_key sid) m v) model t_user t_bot w)) sid
          = Some \<lparr>messages = \<lparr>msg_role = ''user'', msg_content = m, msg_timestamp = t_user\<rparr>
                                # replies,
                   files = [], ticket_counter = 0, feedback = []\<rparr>)
    \<and> sessions (snd (create_ticket sid w)) sid
      = Some \<lparr>messages = [], files = [], ticket_counter = 1, feedback = []\<rparr>
    \<and> sessions (snd (submit_feedback sid rating comment now w)) sid
      = Some \<lparr>messages = [], files = [], ticket_counter = 0,
               feedback = [\<lparr>fb_rating = rating, fb_comment = comment, fb_timestamp = now\<rparr>]\<rparr>
    \<and> export_json sid w = (Inr (200, Export_error ''Session not found''), w)
    \<and> export_feedback sid w = (Inr (200, Csv_error ''No feedback data available''), w)
    \<and> clear_chat sid w = (Inr (200, Clear_error ''Session not found''), w)"
proof -
  have created: "sessions (create_if_absent sid w) sid = Some new_session"
    using assms by (simp add: create_if_absent_def)
  have init: "sessions (snd (init_session sid w)) sid
      = Some \<lparr>messages = [], files = [], ticket_counter = 0, feedback = []\<rparr>"
    using created by (simp add: init_session_def Let_def new_session_def)
  from save_files_keeps_session [OF created, of fs "[]"] obtain names
    where "sessions (snd (save_files sid fs [] (create_if_absent sid w))) sid
        = Some (new_session\<lparr>files := files new_session @ names\<rparr>)"
    by blast
  then have "sessions (snd (upload_file sid fs w)) sid
      = Some \<lparr>messages = [], files = names, ticket_counter = 0, feedback = []\<rparr>"
    by (cases "save_files sid fs [] (create_if_absent sid w)")
       (auto simp: upload_file_def new_session_def split: sum.splits)
  then have upload: "\<exists>names. sessions (snd (upload_file sid fs w)) sid
      = Some \<lparr>messages = [], files = names, ticket_counter = 0, feedback = []\<rparr>"
    by blast
  have chat: "\<exists>replies. sessions (snd (chat (Body_object (Id_key sid) m v) model t_user t_bot w)) sid
      = Some \<lparr>messages = \<lparr>msg_role = ''user'', msg_content = m, msg_timestamp = t_user\<rparr>
                            # replies,
               files = [], ticket_counter = 0, feedback = []\<rparr>"
    using assms unfolding chat_run Let_def
    by (simp add: put_session_def new_session_def split: option.splits sum.splits)
  have ticket: "sessions (snd (create_ticket sid w)) sid
      = Some \<lparr>messages = [], files = [], ticket_counter = 1, feedback = []\<rparr>"
    using created
    by (simp add: create_ticket_def Let_def new_session_def put_session_def)
  have feedback: "sessions (snd (submit_feedback sid rating comment now w)) sid
      = Some \<lparr>messages = [], files = [], ticket_counter = 0,
               feedback = [\<lparr>fb_rating = rating, fb_comment = comment, fb_timestamp = now\<rparr>]\<rparr>"
    using created
    by (simp add: submit_feedback_def Let_def new_session_def put_session_def)
  have exports: "export_json sid w = (Inr (200, Export_error ''Session not found''), w)"
    "export_feedback sid w = (Inr (200, Csv_error ''No feedback data available''), w)"
    "clear_chat sid w = (Inr (200, Clear_error ''Session not found''), w)"
    using assms by (simp_all add: export_json_def export_feedback_def clear_chat_def jsonify_def)
  from init upload chat ticket feedback exports show ?thesis
    by blast
qed

theorem first_operation_on_new_id_witness:
  "sessions empty_world (Some ''s1'') = None
   \<and> sessions (snd (init_session (Some ''s1'') empty_world)) (Some ''s1'')
     = Some \<lparr>messages = [], files = [], ticket_counter = 0, feedback = []\<rparr>
   \<and> sessions (snd (create_ticket (Some ''s1'') empty_world)) (Some ''s1'')
     = Some \<lparr>messages = [], files = [], ticket_counter = 1, feedback = []\<rparr>
   \<and> sessions (snd (submit_feedback (Some ''s1'') (RInt 4) ''ok'' ''t1'' empty_world)) (Some ''s1'')
     = Some \<lparr>messages = [], files = [], ticket_counter = 0,
              feedback = [\<lparr>fb_rating = RInt 4, fb_comment = ''ok'', fb_timestamp = ''t1''\<rparr>]\<rparr>
   \<and> export_json (Some ''s1'') empty_world
     = (Inr (200, Export_error ''Session not found''), empty_world)
   \<and> clear_chat (Some ''s1'') empty_world
     = (Inr (200, Clear_error ''Session not found''), empty_world)"
proof -
  have unseen: "sessions empty_world (Some ''s1'') = None"
    by (simp add: empty_world_def)
  from first_operation_on_new_id [OF unseen, of "[]" None False None "''t0''" "''t0''"
      "RInt 4" "''ok''" "''t1''"] unseen
  show ?thesis
    by blast
qed

text \<open>
  On the empty state, the two exports and the clear leave the id they were called with
  unknown.
\<close>

theorem export_creates_session_counterexample:
  "sessions (snd (export_json (Some ''s1'') empty_world)) (Some ''s1'') = None
   \<and> sessions (snd (export_feedback (Some ''s1'') empty_world)) (Some ''s1'') = None
   \<and> sessions (snd (clear_chat (Some ''s1'') empty_world)) (Some ''s1'') = None"
  by (simp add: export_json_def export_feedback_def clear_chat_def empty_world_def)

end
